theory Spec2Isabelle
  imports Main "HOL-Library.AList"
begin

section \<open>Python values, dicts, errors and generators\<close>

text \<open>
  The values that flow through the runnables: \<open>None\<close>, integers, strings and dicts.
  A dict is an association list in insertion order; it stands for a Python dict when its
  keys are distinct.
\<close>

datatype pyval =
    PyNone
  | PyInt int
  | PyStr string
  | PyDict "(string \<times> pyval) list"

type_synonym pydict = "(string \<times> pyval) list"

text \<open>
  Exceptions as values. \<open>AssertionError\<close> is what a failed \<open>assert\<close> raises,
  \<open>ValueError\<close> what the run mappers and the metric lookup raise, \<open>KeyError\<close> and
  \<open>IndexError\<close> what a subscript raises, \<open>TypeError\<close> what merging a chunk that is not
  a dict raises; \<open>UnitError\<close> stands for any exception of a nested runnable or of the
  embedding provider.
\<close>

datatype error =
    AssertionError string
  | ValueError string
  | KeyError string
  | IndexError string
  | TypeError string
  | UnitError string

text \<open>
  A finite generator, run to its end: the chunks it yields, in order, and the exception
  it ends with, if it ends by raising.
\<close>

datatype 'a iterator = Iterator (yields: "'a list") (raises: "error option")

text \<open>\<open>isinstance(x, dict)\<close>.\<close>

fun is_dict :: "pyval \<Rightarrow> bool" where
  "is_dict (PyDict d) = True"
| "is_dict v = False"

text \<open>\<open>d.update(e)\<close>: a key of \<open>e\<close> already in \<open>d\<close> keeps its place and takes the new
  value, a new key is appended.\<close>

definition dict_update :: "pydict \<Rightarrow> pydict \<Rightarrow> pydict" where
  "dict_update d e = foldl (\<lambda>acc (k, v). AList.update k v acc) d e"

text \<open>The dict display \<open>{**a, **b}\<close>: a new dict, filled from \<open>a\<close>, then from \<open>b\<close>.\<close>

definition dict_unpack2 :: "pydict \<Rightarrow> pydict \<Rightarrow> pydict" where
  "dict_unpack2 a b = dict_update (dict_update [] a) b"

text \<open>
  \<open>next(it, default)\<close>: the next chunk and the rest of the generator; the default when
  the generator is exhausted; the generator's exception when it raises instead.
\<close>

definition next_default :: "'a iterator \<Rightarrow> 'a \<Rightarrow> error + ('a \<times> 'a iterator)" where
  "next_default it dflt =
     (case yields it of
        y # ys \<Rightarrow> Inr (y, Iterator ys (raises it))
      | [] \<Rightarrow> (case raises it of
                 Some e \<Rightarrow> Inl e
               | None \<Rightarrow> Inr (dflt, Iterator [] None)))"

section \<open>RunnableAssign (passthrough.py)\<close>

text \<open>
  The mapper of a \<open>RunnableAssign\<close> is a \<open>RunnableParallel\<close>, handed to the constructor.
  \<open>RunnableAssign\<close> uses its step names and its four execution modes, which are the
  fields here. \<open>transform_m\<close> and \<open>atransform_m\<close> get the map branch of the tee, which
  carries the same chunks as the input.
\<close>

record mapper =
  steps_keys :: "string list"
  invoke_m :: "pyval \<Rightarrow> error + pydict"
  ainvoke_m :: "pyval \<Rightarrow> error + pydict"
  transform_m :: "pyval list \<Rightarrow> pydict iterator"
  atransform_m :: "pyval list \<Rightarrow> pydict iterator"

definition must_be_dict :: error where
  "must_be_dict = AssertionError ''The input to RunnablePassthrough.assign() must be a dict.''"

text \<open>\<open>RunnableAssign.invoke\<close>.\<close>

definition RunnableAssign_invoke :: "mapper \<Rightarrow> pyval \<Rightarrow> error + pydict" where
  "RunnableAssign_invoke m input =
     (case input of
        PyDict d \<Rightarrow>
          (case invoke_m m input of
             Inl e \<Rightarrow> Inl e
           | Inr out \<Rightarrow> Inr (dict_unpack2 d out))
      | _ \<Rightarrow> Inl must_be_dict)"

text \<open>\<open>RunnableAssign.ainvoke\<close>.\<close>

definition RunnableAssign_ainvoke :: "mapper \<Rightarrow> pyval \<Rightarrow> error + pydict" where
  "RunnableAssign_ainvoke m input =
     (case input of
        PyDict d \<Rightarrow>
          (case ainvoke_m m input of
             Inl e \<Rightarrow> Inl e
           | Inr out \<Rightarrow> Inr (dict_unpack2 d out))
      | _ \<Rightarrow> Inl must_be_dict)"

text \<open>
  The two \<open>yield\<close> sites of \<open>transform\<close>: the passthrough loop, and the map output
  after it.
\<close>

datatype branch = Passthrough | MapBranch

text \<open>
  The loop that consumes the passthrough stream: each chunk must be a dict, the mapper's
  keys are removed from it, and what is left is yielded when it is not empty.
\<close>

fun passthrough_loop :: "string list \<Rightarrow> pyval list \<Rightarrow> pyval iterator" where
  "passthrough_loop mapper_keys [] = Iterator [] None"
| "passthrough_loop mapper_keys (PyDict chunk # rest) =
     (let filtered = filter (\<lambda>(k, v). k \<notin> set mapper_keys) chunk;
          later = passthrough_loop mapper_keys rest
      in if filtered \<noteq> [] then Iterator (PyDict filtered # yields later) (raises later)
         else later)"
| "passthrough_loop mapper_keys (chunk # rest) = Iterator [] (Some must_be_dict)"

text \<open>
  What \<open>transform\<close> yields once the passthrough stream is consumed: the first map chunk,
  fetched by \<open>next(map_output, None)\<close>, then the chunks left in \<open>map_output\<close>.
\<close>

definition yield_map_output :: "pydict iterator \<Rightarrow> pyval iterator" where
  "yield_map_output map_output =
     (case next_default (Iterator (map PyDict (yields map_output)) (raises map_output)) PyNone of
        Inl e \<Rightarrow> Iterator [] (Some e)
      | Inr (first_map_chunk, rest) \<Rightarrow> Iterator (first_map_chunk # yields rest) (raises rest))"

text \<open>
  \<open>RunnableAssign.transform\<close>, each yielded chunk labelled with the \<open>yield\<close> site it
  comes from. The tee gives both branches the chunks of \<open>input\<close>.
\<close>

definition RunnableAssign_transform_labelled :: "mapper \<Rightarrow> pyval list \<Rightarrow> (branch \<times> pyval) iterator" where
  "RunnableAssign_transform_labelled m input =
     (let mapper_keys = steps_keys m;
          map_output = transform_m m input;
          passed = passthrough_loop mapper_keys input
      in case raises passed of
           Some e \<Rightarrow> Iterator (map (Pair Passthrough) (yields passed)) (Some e)
         | None \<Rightarrow>
             (let mapped = yield_map_output map_output
              in Iterator (map (Pair Passthrough) (yields passed) @ map (Pair MapBranch) (yields mapped))
                   (raises mapped)))"

text \<open>\<open>RunnableAssign.atransform\<close>, labelled the same way.\<close>

definition RunnableAssign_atransform_labelled :: "mapper \<Rightarrow> pyval list \<Rightarrow> (branch \<times> pyval) iterator" where
  "RunnableAssign_atransform_labelled m input =
     (let mapper_keys = steps_keys m;
          map_output = atransform_m m input;
          passed = passthrough_loop mapper_keys input
      in case raises passed of
           Some e \<Rightarrow> Iterator (map (Pair Passthrough) (yields passed)) (Some e)
         | None \<Rightarrow>
             (let mapped = yield_map_output map_output
              in Iterator (map (Pair Passthrough) (yields passed) @ map (Pair MapBranch) (yields mapped))
                   (raises mapped)))"

text \<open>The generators as the caller sees them: the chunks without the labels.\<close>

definition unlabelled :: "(branch \<times> pyval) iterator \<Rightarrow> pyval iterator" where
  "unlabelled it = Iterator (map snd (yields it)) (raises it)"

definition RunnableAssign_transform :: "mapper \<Rightarrow> pyval list \<Rightarrow> pyval iterator" where
  "RunnableAssign_transform m input = unlabelled (RunnableAssign_transform_labelled m input)"

definition RunnableAssign_atransform :: "mapper \<Rightarrow> pyval list \<Rightarrow> pyval iterator" where
  "RunnableAssign_atransform m input = unlabelled (RunnableAssign_atransform_labelled m input)"

text \<open>\<open>RunnableAssign.stream\<close> and \<open>astream\<close>: the input as a stream of one chunk.\<close>

definition RunnableAssign_stream :: "mapper \<Rightarrow> pyval \<Rightarrow> pyval iterator" where
  "RunnableAssign_stream m input = RunnableAssign_transform m [input]"

definition RunnableAssign_astream :: "mapper \<Rightarrow> pyval \<Rightarrow> pyval iterator" where
  "RunnableAssign_astream m input = RunnableAssign_atransform m [input]"

text \<open>
  Modelled from the spec: the default \<open>invoke\<close> of a unit that streams (the accumulation
  of chunks in base.py and \<open>AddableDict\<close> in utils.py are not in the sources). The stream
  is drained and each chunk is merged onto the accumulator dict, the keys of a later chunk
  overwriting earlier ones. A chunk that is not a dict cannot be merged key by key.
\<close>

fun merge_chunks :: "pydict \<Rightarrow> pyval list \<Rightarrow> error + pydict" where
  "merge_chunks acc [] = Inr acc"
| "merge_chunks acc (PyDict d # chunks) = merge_chunks (dict_update acc d) chunks"
| "merge_chunks acc (chunk # chunks) = Inl (TypeError ''chunk is not a dict'')"

definition concat_stream :: "pyval iterator \<Rightarrow> error + pydict" where
  "concat_stream it =
     (case merge_chunks [] (yields it) of
        Inl e \<Rightarrow> Inl e
      | Inr acc \<Rightarrow> (case raises it of Some e \<Rightarrow> Inl e | None \<Rightarrow> Inr acc))"

subsection \<open>The input record as an object in a store\<close>





section \<open>RunnablePassthrough (passthrough.py)\<close>

definition identity :: "'a \<Rightarrow> 'a" where
  "identity x = x"

definition aidentity :: "'a \<Rightarrow> 'a" where
  "aidentity x = x"

text \<open>
  Modelled from the spec: \<open>Runnable._call_with_config\<close> and \<open>_acall_with_config\<close>
  (base.py, not in the sources). The configuration is an opaque bag of options threaded
  unchanged through the call: the helper runs the function on the input and returns its
  result.
\<close>

definition call_with_config :: "('a \<Rightarrow> 'b) \<Rightarrow> 'a \<Rightarrow> 'b" where
  "call_with_config func input = func input"

definition acall_with_config :: "('a \<Rightarrow> 'b) \<Rightarrow> 'a \<Rightarrow> 'b" where
  "acall_with_config func input = func input"

text \<open>
  Modelled from the spec: \<open>Runnable._transform_stream_with_config\<close> and
  \<open>_atransform_stream_with_config\<close> (base.py, not in the sources). The helper hands the
  input iterator to the transformer and yields the chunks of the iterator it gets back,
  one by one.
\<close>

definition transform_stream_with_config :: "'a list \<Rightarrow> ('a list \<Rightarrow> 'b list) \<Rightarrow> 'b list" where
  "transform_stream_with_config input transformer = transformer input"

definition atransform_stream_with_config :: "'a list \<Rightarrow> ('a list \<Rightarrow> 'b list) \<Rightarrow> 'b list" where
  "atransform_stream_with_config input transformer = transformer input"

definition RunnablePassthrough_invoke :: "'a \<Rightarrow> 'a" where
  "RunnablePassthrough_invoke input = call_with_config identity input"

definition RunnablePassthrough_ainvoke :: "'a \<Rightarrow> 'a" where
  "RunnablePassthrough_ainvoke input = acall_with_config aidentity input"

definition RunnablePassthrough_transform :: "'a list \<Rightarrow> 'a list" where
  "RunnablePassthrough_transform input = transform_stream_with_config input identity"

definition RunnablePassthrough_atransform :: "'a list \<Rightarrow> 'a list" where
  "RunnablePassthrough_atransform input = atransform_stream_with_config input identity"

section \<open>ChainStringRunMapper (string\_run\_evaluator.py)\<close>

text \<open>The fields of a \<open>Run\<close> that the mapper reads; \<open>outputs\<close> is optional.\<close>

record run =
  run_id :: string
  run_type :: string
  inputs :: pydict
  outputs :: "pydict option"

record ChainStringRunMapper =
  input_key :: string
  prediction_key :: string

text \<open>\<open>d[k]\<close>.\<close>

definition subscript :: "(string \<times> 'v) list \<Rightarrow> string \<Rightarrow> error + 'v" where
  "subscript d k = (case map_of d k of None \<Rightarrow> Inl (KeyError k) | Some v \<Rightarrow> Inr v)"

text \<open>\<open>ChainStringRunMapper.map\<close>. \<open>not run.outputs\<close> holds of \<open>None\<close> and of the empty dict.\<close>

definition ChainStringRunMapper_map :: "ChainStringRunMapper \<Rightarrow> run \<Rightarrow> error + pydict" where
  "ChainStringRunMapper_map self r =
     (if outputs r = None \<or> outputs r = Some [] then
        Inl (ValueError (''Run '' @ run_id r @ '' has no outputs to evaluate.''))
      else if run_type r \<noteq> ''chain'' then
        Inl (ValueError ''Chain RunMapper only supports Chain runs.'')
      else if input_key self \<notin> fst ` set (inputs r) then
        Inl (ValueError (''Run '' @ run_id r @ '' does not have input key '' @ input_key self @ ''.''))
      else if prediction_key self \<notin> fst ` set (case outputs r of None \<Rightarrow> [] | Some outs \<Rightarrow> outs) then
        Inl (ValueError
          (''Run '' @ run_id r @ '' does not have prediction key '' @ prediction_key self @ ''.''))
      else
        (case subscript (inputs r) (input_key self) of
           Inl e \<Rightarrow> Inl e
         | Inr i \<Rightarrow>
             (case subscript (case outputs r of None \<Rightarrow> [] | Some outs \<Rightarrow> outs) (prediction_key self) of
                Inl e \<Rightarrow> Inl e
              | Inr p \<Rightarrow> Inr [(''input'', i), (''prediction'', p)])))"

section \<open>PairwiseEmbeddingStringEvalChain (embedding.py)\<close>

text \<open>
  The chain's embedding provider and its five numeric distances work on floating-point
  vectors; they are parameters here, over a type \<open>'v\<close> of vectors and a type \<open>'s\<close> of
  scores. \<open>distance_metric\<close> is the metric's name.
\<close>

record ('v, 's) PairwiseEmbeddingStringEvalChain =
  embed_documents :: "string list \<Rightarrow> error + 'v list"
  aembed_documents :: "string list \<Rightarrow> error + 'v list"
  distance_metric :: string
  cosine_distance :: "'v \<Rightarrow> 'v \<Rightarrow> 's"
  euclidean_distance :: "'v \<Rightarrow> 'v \<Rightarrow> 's"
  manhattan_distance :: "'v \<Rightarrow> 'v \<Rightarrow> 's"
  chebyshev_distance :: "'v \<Rightarrow> 'v \<Rightarrow> 's"
  hamming_distance :: "'v \<Rightarrow> 'v \<Rightarrow> 's"

definition get_metric ::
  "('v, 's) PairwiseEmbeddingStringEvalChain \<Rightarrow> string \<Rightarrow> error + ('v \<Rightarrow> 'v \<Rightarrow> 's)" where
  "get_metric self metric =
     (let metrics =
        [(''cosine'', cosine_distance self),
         (''euclidean'', euclidean_distance self),
         (''manhattan'', manhattan_distance self),
         (''chebyshev'', chebyshev_distance self),
         (''hamming'', hamming_distance self)]
      in case map_of metrics metric of
           Some f \<Rightarrow> Inr f
         | None \<Rightarrow> Inl (ValueError (''Invalid metric: '' @ metric)))"

definition compute_score ::
  "('v, 's) PairwiseEmbeddingStringEvalChain \<Rightarrow> 'v list \<Rightarrow> error + 's" where
  "compute_score self vectors =
     (case get_metric self (distance_metric self) of
        Inl e \<Rightarrow> Inl e
      | Inr metric \<Rightarrow>
          (case vectors of
             a # b # rest \<Rightarrow> Inr (metric a b)
           | _ \<Rightarrow> Inl (IndexError ''index out of bounds'')))"

text \<open>\<open>_call\<close> and \<open>_acall\<close>.\<close>

definition chain_call ::
  "('v, 's) PairwiseEmbeddingStringEvalChain \<Rightarrow> (string \<times> string) list \<Rightarrow> error + (string \<times> 's) list" where
  "chain_call self inps =
     (case subscript inps ''prediction'' of
        Inl e \<Rightarrow> Inl e
      | Inr p \<Rightarrow>
          (case subscript inps ''prediction_b'' of
             Inl e \<Rightarrow> Inl e
           | Inr pb \<Rightarrow>
               (case embed_documents self [p, pb] of
                  Inl e \<Rightarrow> Inl e
                | Inr vectors \<Rightarrow>
                    (case compute_score self vectors of
                       Inl e \<Rightarrow> Inl e
                     | Inr score \<Rightarrow> Inr [(''score'', score)]))))"

definition chain_acall ::
  "('v, 's) PairwiseEmbeddingStringEvalChain \<Rightarrow> (string \<times> string) list \<Rightarrow> error + (string \<times> 's) list" where
  "chain_acall self inps =
     (case subscript inps ''prediction'' of
        Inl e \<Rightarrow> Inl e
      | Inr p \<Rightarrow>
          (case subscript inps ''prediction_b'' of
             Inl e \<Rightarrow> Inl e
           | Inr pb \<Rightarrow>
               (case aembed_documents self [p, pb] of
                  Inl e \<Rightarrow> Inl e
                | Inr vectors \<Rightarrow>
                    (case compute_score self vectors of
                       Inl e \<Rightarrow> Inl e
                     | Inr score \<Rightarrow> Inr [(''score'', score)]))))"

text \<open>
  Modelled from the spec: \<open>Chain.__call__\<close> and \<open>Chain.acall\<close> (chains/base.py, not in the
  sources). The evaluator returns a score record: the call runs the chain's \<open>_call\<close>
  (\<open>_acall\<close>) on the inputs and returns its record; the callbacks are opaque.
\<close>

definition Chain_call ::
  "('v, 's) PairwiseEmbeddingStringEvalChain \<Rightarrow> (string \<times> string) list \<Rightarrow> error + (string \<times> 's) list" where
  "Chain_call self inps = chain_call self inps"

definition Chain_acall ::
  "('v, 's) PairwiseEmbeddingStringEvalChain \<Rightarrow> (string \<times> string) list \<Rightarrow> error + (string \<times> 's) list" where
  "Chain_acall self inps = chain_acall self inps"

text \<open>\<open>evaluate_string_pairs\<close> and \<open>aevaluate_string_pairs\<close>, with their optional
  \<open>input\<close> and \<open>reference\<close>.\<close>

definition evaluate_string_pairs ::
  "('v, 's) PairwiseEmbeddingStringEvalChain \<Rightarrow> string \<Rightarrow> string \<Rightarrow> string option \<Rightarrow> string option
     \<Rightarrow> error + (string \<times> 's) list" where
  "evaluate_string_pairs self prediction prediction_b input reference =
     Chain_call self [(''prediction'', prediction), (''prediction_b'', prediction_b)]"

definition aevaluate_string_pairs ::
  "('v, 's) PairwiseEmbeddingStringEvalChain \<Rightarrow> string \<Rightarrow> string \<Rightarrow> string option \<Rightarrow> string option
     \<Rightarrow> error + (string \<times> 's) list" where
  "aevaluate_string_pairs self prediction prediction_b input reference =
     Chain_acall self [(''prediction'', prediction), (''prediction_b'', prediction_b)]"

section \<open>The passthrough output, in the spec's words\<close>

fun dict_items :: "pyval \<Rightarrow> pydict" where
  "dict_items (PyDict d) = d"
| "dict_items v = []"

text \<open>
  What the spec says of the passthrough branch: the chunks before the first one that is
  not a dict, each without the mapper's keys, the empty ones dropped.
\<close>

definition spec_passthrough_output :: "string list \<Rightarrow> pyval list \<Rightarrow> pyval list" where
  "spec_passthrough_output mapper_keys chunks =
     filter (\<lambda>c. c \<noteq> PyDict [])
       (map (\<lambda>c. PyDict (filter (\<lambda>(k, v). k \<notin> set mapper_keys) (dict_items c)))
          (takeWhile is_dict chunks))"

section \<open>The mappers of the examples\<close>

text \<open>
  A parallel map with the two sub-tasks of the spec's example: \<open>b\<close> returns 99 and \<open>c\<close>
  returns the sum of the input's \<open>a\<close> and \<open>b\<close>. As a stream it gives each result as a
  one-key chunk, for the last dict of its input.
\<close>

definition sum_of_a_b :: "pyval \<Rightarrow> pyval" where
  "sum_of_a_b x =
     (case x of
        PyDict d \<Rightarrow>
          (case (map_of d ''a'', map_of d ''b'') of
             (Some (PyInt a), Some (PyInt b)) \<Rightarrow> PyInt (a + b)
           | _ \<Rightarrow> PyNone)
      | _ \<Rightarrow> PyNone)"

definition example_invoke :: "pyval \<Rightarrow> error + pydict" where
  "example_invoke x = Inr [(''b'', PyInt 99), (''c'', sum_of_a_b x)]"

definition example_transform :: "pyval list \<Rightarrow> pydict iterator" where
  "example_transform xs =
     (let x = PyDict (foldl (\<lambda>acc c. case c of PyDict d \<Rightarrow> dict_update acc d | _ \<Rightarrow> acc) [] xs)
      in Iterator [[(''b'', PyInt 99)], [(''c'', sum_of_a_b x)]] None)"

definition example_mapper :: mapper where
  "example_mapper =
     \<lparr>steps_keys = [''b'', ''c''],
      invoke_m = example_invoke, ainvoke_m = example_invoke,
      transform_m = example_transform, atransform_m = example_transform\<rparr>"

text \<open>A parallel map with no sub-task: its result is the empty dict and its stream has
  no chunk.\<close>

definition empty_mapper :: mapper where
  "empty_mapper =
     \<lparr>steps_keys = [],
      invoke_m = (\<lambda>x. Inr []), ainvoke_m = (\<lambda>x. Inr []),
      transform_m = (\<lambda>xs. Iterator [] None), atransform_m = (\<lambda>xs. Iterator [] None)\<rparr>"


text \<open>A chain run mapper and two chain runs: one with the prediction key, one without.\<close>

definition chain_mapper :: ChainStringRunMapper where
  "chain_mapper = \<lparr>input_key = ''question'', prediction_key = ''answer''\<rparr>"

definition good_run :: run where
  "good_run = \<lparr>run_id = ''r1'', run_type = ''chain'',
      inputs = [(''question'', PyStr ''2+2'')], outputs = Some [(''answer'', PyStr ''4'')]\<rparr>"

definition bad_run :: run where
  "bad_run = \<lparr>run_id = ''r2'', run_type = ''chain'',
      inputs = [(''question'', PyStr ''2+2'')], outputs = Some [(''text'', PyStr ''4'')]\<rparr>"

section \<open>Dicts as maps\<close>

lemma map_of_foldl_update:
  "distinct (map fst e) \<Longrightarrow>
   map_of (foldl (\<lambda>acc (k, v). AList.update k v acc) d e) = map_of d ++ map_of e"
proof (induction e arbitrary: d)
  case Nil
  then show ?case by simp
next
  case (Cons p e)
  obtain k v where p: "p = (k, v)" by (cases p)
  from Cons.prems p have notin: "k \<notin> fst ` set e" and dist: "distinct (map fst e)"
    by auto
  from notin have none: "map_of e k = None"
    by (simp add: map_of_eq_None_iff)
  have "map_of (foldl (\<lambda>acc (k, v). AList.update k v acc) d (p # e))
        = map_of (AList.update k v d) ++ map_of e"
    using Cons.IH [OF dist] p by simp
  also have "\<dots> = (map_of d)(k \<mapsto> v) ++ map_of e"
    by (simp add: AList.update_conv')
  also have "\<dots> = map_of d ++ map_of (p # e)"
    using none p by (auto simp: fun_eq_iff map_add_def split: option.splits)
  finally show ?case .
qed

lemma map_of_dict_update:
  "distinct (map fst e) \<Longrightarrow> map_of (dict_update d e) = map_of d ++ map_of e"
  by (simp add: dict_update_def map_of_foldl_update)

lemma distinct_foldl_update:
  "distinct (map fst d) \<Longrightarrow> distinct (map fst (foldl (\<lambda>acc (k, v). AList.update k v acc) d e))"
  by (induction e arbitrary: d) (auto simp: AList.distinct_update)

lemma distinct_dict_update:
  "distinct (map fst d) \<Longrightarrow> distinct (map fst (dict_update d e))"
  by (simp add: dict_update_def distinct_foldl_update)

lemma map_of_dict_unpack2:
  "distinct (map fst a) \<Longrightarrow> distinct (map fst b) \<Longrightarrow>
   map_of (dict_unpack2 a b) = map_of a ++ map_of b"
  by (simp add: dict_unpack2_def map_of_dict_update)

lemma distinct_dict_unpack2: "distinct (map fst (dict_unpack2 a b))"
  by (simp add: dict_unpack2_def distinct_dict_update)

section \<open>The generator of RunnableAssign.transform\<close>

lemma yields_passthrough_loop:
  "yields (passthrough_loop ks xs) = spec_passthrough_output ks xs"
  by (induction ks xs rule: passthrough_loop.induct)
     (simp_all add: spec_passthrough_output_def Let_def)

lemma raises_passthrough_loop:
  "raises (passthrough_loop ks xs) = (if list_all is_dict xs then None else Some must_be_dict)"
  by (induction ks xs rule: passthrough_loop.induct) (simp_all add: Let_def)

lemma yields_yield_map_output:
  "yields (yield_map_output it) =
     (if yields it = [] then (if raises it = None then [PyNone] else [])
      else map PyDict (yields it))"
  by (cases it) (auto simp: yield_map_output_def next_default_def split: list.splits option.splits)

lemma raises_yield_map_output: "raises (yield_map_output it) = raises it"
  by (cases it) (auto simp: yield_map_output_def next_default_def split: list.splits option.splits)

lemma yields_transform_labelled:
  "yields (RunnableAssign_transform_labelled m xs) =
     map (Pair Passthrough) (spec_passthrough_output (steps_keys m) xs) @
     map (Pair MapBranch)
       (if list_all is_dict xs then yields (yield_map_output (transform_m m xs)) else [])"
  by (simp add: RunnableAssign_transform_labelled_def Let_def yields_passthrough_loop
      raises_passthrough_loop split: option.splits)

lemma raises_transform_labelled:
  "raises (RunnableAssign_transform_labelled m xs) =
     (if list_all is_dict xs then raises (transform_m m xs) else Some must_be_dict)"
  by (simp add: RunnableAssign_transform_labelled_def Let_def raises_yield_map_output
      raises_passthrough_loop split: option.splits)

lemma yields_atransform_labelled:
  "yields (RunnableAssign_atransform_labelled m xs) =
     map (Pair Passthrough) (spec_passthrough_output (steps_keys m) xs) @
     map (Pair MapBranch)
       (if list_all is_dict xs then yields (yield_map_output (atransform_m m xs)) else [])"
  by (simp add: RunnableAssign_atransform_labelled_def Let_def yields_passthrough_loop
      raises_passthrough_loop split: option.splits)

lemma raises_atransform_labelled:
  "raises (RunnableAssign_atransform_labelled m xs) =
     (if list_all is_dict xs then raises (atransform_m m xs) else Some must_be_dict)"
  by (simp add: RunnableAssign_atransform_labelled_def Let_def raises_yield_map_output
      raises_passthrough_loop split: option.splits)

lemma map_part_cases:
  "(if c then yields (yield_map_output it) else []) = []
   \<or> (if c then yields (yield_map_output it) else []) = [PyNone]
   \<or> (if c then yields (yield_map_output it) else []) = map PyDict (yields it)"
  by (simp add: yields_yield_map_output)

lemma example_passthrough_output:
  "spec_passthrough_output [''b'', ''c'']
     [PyDict [(''a'', PyInt 1)], PyDict [(''b'', PyInt 2)], PyDict []] = [PyDict [(''a'', PyInt 1)]]"
  by (simp add: spec_passthrough_output_def)

lemma subscript_Some: "map_of d k = Some v \<Longrightarrow> subscript d k = Inr v"
  by (simp add: subscript_def)

section \<open>Streaming against invoke\<close>

text \<open>
  When the mapper's stream has at least one chunk and merges to what the mapper's
  \<open>invoke\<close> returns, the chunks of \<open>RunnableAssign.stream\<close> merge to a dict with the
  lookup of the result of \<open>RunnableAssign.invoke\<close>.
\<close>

lemma merge_chunks_dicts:
  "merge_chunks acc (map PyDict cs) = Inr (foldl dict_update acc cs)"
  by (induction cs arbitrary: acc) simp_all

lemma merge_chunks_append_dicts:
  "merge_chunks acc (map PyDict ps @ map PyDict cs) = Inr (foldl dict_update acc (ps @ cs))"
  using merge_chunks_dicts [of acc "ps @ cs"] by simp

lemma map_of_foldl_dict_update:
  "list_all (\<lambda>c. distinct (map fst c)) cs \<Longrightarrow>
   map_of (foldl dict_update acc cs) = map_of acc ++ map_of (foldl dict_update [] cs)"
proof (induction cs arbitrary: acc)
  case Nil
  then show ?case by simp
next
  case (Cons c cs)
  then have c: "distinct (map fst c)" and cs: "list_all (\<lambda>c. distinct (map fst c)) cs"
    by simp_all
  have "map_of (foldl dict_update acc (c # cs))
          = map_of (dict_update acc c) ++ map_of (foldl dict_update [] cs)"
    using Cons.IH [OF cs, of "dict_update acc c"] by simp
  also have "\<dots> = map_of acc ++ (map_of (dict_update [] c) ++ map_of (foldl dict_update [] cs))"
    by (simp add: map_of_dict_update c)
  also have "\<dots> = map_of acc ++ map_of (foldl dict_update [] (c # cs))"
    using Cons.IH [OF cs, of "dict_update [] c"] by simp
  finally show ?case .
qed

lemma map_of_remove_keys:
  "map_of (filter (\<lambda>(k, v). k \<notin> set ks) d) k = (if k \<in> set ks then None else map_of d k)"
  by (induction d) auto

lemma passthrough_output_single:
  "spec_passthrough_output ks [PyDict d] =
     (if filter (\<lambda>(k, v). k \<notin> set ks) d = [] then []
      else [PyDict (filter (\<lambda>(k, v). k \<notin> set ks) d)])"
  by (simp add: spec_passthrough_output_def)

lemma stream_agrees_with_invoke_when_map_stream_nonempty:
  assumes d: "distinct (map fst d)"
    and tr: "transform_m m [PyDict d] = Iterator cs None"
    and ne: "cs \<noteq> []"
    and dcs: "list_all (\<lambda>c. distinct (map fst c)) cs"
    and inv: "invoke_m m (PyDict d) = Inr out"
    and dout: "distinct (map fst out)"
    and law: "map_of (foldl dict_update [] cs) = map_of out"
    and keys: "set (steps_keys m) \<inter> fst ` set d \<subseteq> fst ` set out"
  shows "\<exists>s r. concat_stream (RunnableAssign_stream m (PyDict d)) = Inr s
           \<and> RunnableAssign_invoke m (PyDict d) = Inr r
           \<and> map_of s = map_of r"
proof -
  let ?f = "filter (\<lambda>(k, v). k \<notin> set (steps_keys m)) d"
  let ?ps = "if ?f = [] then [] else [?f]"
  have df: "distinct (map fst ?f)"
    using d by (simp add: distinct_map_filter)
  have ys: "yields (RunnableAssign_stream m (PyDict d)) = map PyDict ?ps @ map PyDict cs"
    using tr ne
    by (simp add: RunnableAssign_stream_def RunnableAssign_transform_def unlabelled_def
        yields_transform_labelled yields_yield_map_output passthrough_output_single o_def)
  have rs: "raises (RunnableAssign_stream m (PyDict d)) = None"
    using tr
    by (simp add: RunnableAssign_stream_def RunnableAssign_transform_def unlabelled_def
        raises_transform_labelled)
  have cs: "concat_stream (RunnableAssign_stream m (PyDict d))
              = Inr (foldl dict_update [] (?ps @ cs))"
    unfolding concat_stream_def ys rs merge_chunks_append_dicts by simp
  have "list_all (\<lambda>c. distinct (map fst c)) (?ps @ cs)"
    using df dcs by simp
  have ms: "map_of (foldl dict_update [] (?ps @ cs)) = map_of ?f ++ map_of out"
  proof (cases "?f = []")
    case True
    then show ?thesis using law by simp
  next
    case False
    then have "map_of (foldl dict_update [] (?ps @ cs))
                 = map_of (dict_update [] ?f) ++ map_of (foldl dict_update [] cs)"
      using map_of_foldl_dict_update [OF dcs, of "dict_update [] ?f"] by simp
    then show ?thesis
      using law df by (simp add: map_of_dict_update)
  qed
  have r: "RunnableAssign_invoke m (PyDict d) = Inr (dict_unpack2 d out)"
    using inv by (simp add: RunnableAssign_invoke_def)
  have mr: "map_of (dict_unpack2 d out) = map_of d ++ map_of out"
    using d dout by (rule map_of_dict_unpack2)
  have "map_of ?f ++ map_of out = map_of d ++ map_of out"
  proof
    fix k
    show "(map_of ?f ++ map_of out) k = (map_of d ++ map_of out) k"
    proof (cases "map_of out k")
      case (Some v)
      then show ?thesis by (simp add: map_add_def)
    next
      case None
      then have "k \<notin> fst ` set out" by (simp add: map_of_eq_None_iff)
      with keys have "k \<notin> set (steps_keys m) \<or> k \<notin> fst ` set d" by auto
      then have "map_of ?f k = map_of d k"
      proof
        assume "k \<notin> set (steps_keys m)"
        then show ?thesis by (simp add: map_of_remove_keys)
      next
        assume "k \<notin> fst ` set d"
        then have "map_of d k = None" by (simp add: map_of_eq_None_iff)
        then show ?thesis by (simp add: map_of_remove_keys)
      qed
      with None show ?thesis by (simp add: map_add_def)
    qed
  qed
  with cs ms r mr show ?thesis by simp
qed

section \<open>The claims\<close>

text \<open>
  Claim C1 (streaming and invoke agree): merging all chunks of \<open>stream(x)\<close> gives
  \<open>invoke(x)\<close>. For a \<open>RunnableAssign\<close> over a parallel map with no sub-task and the input
  \<open>{"a": 1}\<close>, \<open>invoke\<close> returns \<open>{"a": 1}\<close>, while \<open>stream\<close> yields \<open>{"a": 1}\<close> and then
  \<open>None\<close>, the default of \<open>next(map_output, None)\<close>, which is not a dict and cannot be
  merged.
\<close>

theorem stream_of_empty_mapper_differs_from_invoke:
  "RunnableAssign_invoke empty_mapper (PyDict [(''a'', PyInt 1)]) = Inr [(''a'', PyInt 1)]
   \<and> RunnableAssign_stream empty_mapper (PyDict [(''a'', PyInt 1)])
       = Iterator [PyDict [(''a'', PyInt 1)], PyNone] None
   \<and> concat_stream (RunnableAssign_stream empty_mapper (PyDict [(''a'', PyInt 1)]))
       = Inl (TypeError ''chunk is not a dict'')"
  by (simp add: RunnableAssign_invoke_def RunnableAssign_stream_def RunnableAssign_transform_def
      unlabelled_def RunnableAssign_transform_labelled_def empty_mapper_def Let_def
      yield_map_output_def next_default_def concat_stream_def dict_unpack2_def dict_update_def)

text \<open>
  Claim C2 (passthrough before map): what \<open>transform\<close> and \<open>atransform\<close> yield is the
  filtered passthrough chunks, in the order of the input, followed by the chunks of the
  map branch, in the order the mapper produced them (or the single default \<open>None\<close>, or
  nothing when the call fails first). No map chunk comes before a passthrough chunk.
\<close>

theorem passthrough_chunks_before_map_chunks:
  "(\<exists>ps ms. yields (RunnableAssign_transform_labelled m xs)
              = map (Pair Passthrough) ps @ map (Pair MapBranch) ms
          \<and> ps = spec_passthrough_output (steps_keys m) xs
          \<and> (ms = [] \<or> ms = [PyNone] \<or> ms = map PyDict (yields (transform_m m xs))))
   \<and> (\<exists>ps ms. yields (RunnableAssign_atransform_labelled m xs)
              = map (Pair Passthrough) ps @ map (Pair MapBranch) ms
          \<and> ps = spec_passthrough_output (steps_keys m) xs
          \<and> (ms = [] \<or> ms = [PyNone] \<or> ms = map PyDict (yields (atransform_m m xs))))"
proof (intro conjI)
  let ?ps = "spec_passthrough_output (steps_keys m) xs"
  let ?ms = "if list_all is_dict xs then yields (yield_map_output (transform_m m xs)) else []"
  let ?ams = "if list_all is_dict xs then yields (yield_map_output (atransform_m m xs)) else []"
  have "yields (RunnableAssign_transform_labelled m xs)
          = map (Pair Passthrough) ?ps @ map (Pair MapBranch) ?ms"
    by (rule yields_transform_labelled)
  moreover have "?ms = [] \<or> ?ms = [PyNone] \<or> ?ms = map PyDict (yields (transform_m m xs))"
    by (rule map_part_cases)
  ultimately show "\<exists>ps ms. yields (RunnableAssign_transform_labelled m xs)
              = map (Pair Passthrough) ps @ map (Pair MapBranch) ms
          \<and> ps = spec_passthrough_output (steps_keys m) xs
          \<and> (ms = [] \<or> ms = [PyNone] \<or> ms = map PyDict (yields (transform_m m xs)))"
    by blast
  have "yields (RunnableAssign_atransform_labelled m xs)
          = map (Pair Passthrough) ?ps @ map (Pair MapBranch) ?ams"
    by (rule yields_atransform_labelled)
  moreover have "?ams = [] \<or> ?ams = [PyNone] \<or> ?ams = map PyDict (yields (atransform_m m xs))"
    by (rule map_part_cases)
  ultimately show "\<exists>ps ms. yields (RunnableAssign_atransform_labelled m xs)
              = map (Pair Passthrough) ps @ map (Pair MapBranch) ms
          \<and> ps = spec_passthrough_output (steps_keys m) xs
          \<and> (ms = [] \<or> ms = [PyNone] \<or> ms = map PyDict (yields (atransform_m m xs)))"
    by blast
qed

text \<open>
  Claim C3 (invoke is the shallow union): for a dict input and a mapper that returns a
  dict, \<open>invoke\<close> returns a dict whose lookup is the input's overridden by the mapper's
  output.
\<close>

theorem invoke_shallow_union:
  "distinct (map fst d) \<Longrightarrow> invoke_m m (PyDict d) = Inr out \<Longrightarrow> distinct (map fst out) \<Longrightarrow>
   \<exists>r. RunnableAssign_invoke m (PyDict d) = Inr r \<and> map_of r = map_of d ++ map_of out
       \<and> distinct (map fst r)"
  by (simp add: RunnableAssign_invoke_def map_of_dict_unpack2 distinct_dict_unpack2)

theorem invoke_shallow_union_witness:
  "distinct (map fst [(''a'', PyInt 1), (''b'', PyInt 2)])
   \<and> invoke_m example_mapper (PyDict [(''a'', PyInt 1), (''b'', PyInt 2)])
       = Inr [(''b'', PyInt 99), (''c'', PyInt 3)]
   \<and> distinct (map fst [(''b'', PyInt 99), (''c'', PyInt 3)])
   \<and> RunnableAssign_invoke example_mapper (PyDict [(''a'', PyInt 1), (''b'', PyInt 2)])
       = Inr [(''a'', PyInt 1), (''b'', PyInt 99), (''c'', PyInt 3)]
   \<and> map_of [(''a'', PyInt 1), (''b'', PyInt 99), (''c'', PyInt 3)]
       = map_of [(''a'', PyInt 1), (''b'', PyInt 2)] ++ map_of [(''b'', PyInt 99), (''c'', PyInt 3)]"
proof -
  have out: "invoke_m example_mapper (PyDict [(''a'', PyInt 1), (''b'', PyInt 2)])
       = Inr [(''b'', PyInt 99), (''c'', PyInt 3)]"
    by (simp add: example_mapper_def example_invoke_def sum_of_a_b_def)
  have val: "RunnableAssign_invoke example_mapper (PyDict [(''a'', PyInt 1), (''b'', PyInt 2)])
       = Inr [(''a'', PyInt 1), (''b'', PyInt 99), (''c'', PyInt 3)]"
    by (simp add: RunnableAssign_invoke_def out dict_unpack2_def dict_update_def)
  have d1: "distinct (map fst [(''a'', PyInt 1), (''b'', PyInt 2)])" by simp
  have d2: "distinct (map fst [(''b'', PyInt 99), (''c'', PyInt 3)])" by simp
  from invoke_shallow_union [OF d1 out d2] val d1 d2 out show ?thesis
    by auto
qed

text \<open>
  Claim C4 (filtering of the passthrough branch): the chunks that \<open>transform\<close> yields from
  its passthrough loop are the input chunks without the mapper's keys, the empty ones
  dropped; for the keys \<open>b\<close>, \<open>c\<close> and the chunks \<open>{"a": 1}\<close>, \<open>{"b": 2}\<close>, \<open>{}\<close> that is the
  single chunk \<open>{"a": 1}\<close>.
\<close>

theorem passthrough_chunks_filtered:
  "map snd (filter (\<lambda>p. fst p = Passthrough) (yields (RunnableAssign_transform_labelled m xs)))
     = spec_passthrough_output (steps_keys m) xs
   \<and> map snd (filter (\<lambda>p. fst p = Passthrough)
        (yields (RunnableAssign_transform_labelled example_mapper
           [PyDict [(''a'', PyInt 1)], PyDict [(''b'', PyInt 2)], PyDict []])))
     = [PyDict [(''a'', PyInt 1)]]"
proof -
  have gen: "map snd (filter (\<lambda>p. fst p = Passthrough) (yields (RunnableAssign_transform_labelled m xs)))
     = spec_passthrough_output (steps_keys m) xs" for m xs
    by (simp add: yields_transform_labelled filter_map o_def)
  have keys: "steps_keys example_mapper = [''b'', ''c'']"
    by (simp add: example_mapper_def)
  show ?thesis
    using gen [of m xs]
      gen [of example_mapper "[PyDict [(''a'', PyInt 1)], PyDict [(''b'', PyInt 2)], PyDict []]"]
    by (simp only: keys example_passthrough_output)
qed

text \<open>
  Claim C5 (an item that is not a dict), as stated: the call fails and yields nothing.
  On the chunks \<open>{"a": 1}\<close>, \<open>5\<close> the call fails, but only after it has yielded
  \<open>{"a": 1}\<close>.
\<close>

theorem non_dict_chunk_counterexample:
  "raises (RunnableAssign_transform example_mapper [PyDict [(''a'', PyInt 1)], PyInt 5])
     = Some must_be_dict
   \<and> yields (RunnableAssign_transform example_mapper [PyDict [(''a'', PyInt 1)], PyInt 5])
     = [PyDict [(''a'', PyInt 1)]]"
  by (simp add: RunnableAssign_transform_def unlabelled_def RunnableAssign_transform_labelled_def
      example_mapper_def Let_def)

text \<open>
  Claim C5, amended: \<open>invoke\<close> and \<open>ainvoke\<close> on an input that is not a dict fail with the
  assertion error. \<open>transform\<close> and \<open>atransform\<close> on a stream with a chunk that is not a
  dict yield the filtered chunks that come before the first such chunk, then fail with the
  assertion error, and yield no map chunk.
\<close>

theorem non_dict_fails_after_passthrough_prefix:
  "(\<not> is_dict x \<longrightarrow>
      RunnableAssign_invoke m x = Inl must_be_dict \<and> RunnableAssign_ainvoke m x = Inl must_be_dict)
   \<and> (\<not> list_all is_dict xs \<longrightarrow>
      RunnableAssign_transform_labelled m xs
        = Iterator (map (Pair Passthrough) (spec_passthrough_output (steps_keys m) xs))
            (Some must_be_dict)
      \<and> RunnableAssign_atransform_labelled m xs
        = Iterator (map (Pair Passthrough) (spec_passthrough_output (steps_keys m) xs))
            (Some must_be_dict))"
proof (intro conjI impI)
  assume "\<not> is_dict x"
  then show "RunnableAssign_invoke m x = Inl must_be_dict"
    by (cases x) (simp_all add: RunnableAssign_invoke_def)
next
  assume "\<not> is_dict x"
  then show "RunnableAssign_ainvoke m x = Inl must_be_dict"
    by (cases x) (simp_all add: RunnableAssign_ainvoke_def)
next
  assume bad: "\<not> list_all is_dict xs"
  have "yields (RunnableAssign_transform_labelled m xs)
          = map (Pair Passthrough) (spec_passthrough_output (steps_keys m) xs)"
    using bad by (simp add: yields_transform_labelled)
  moreover have "raises (RunnableAssign_transform_labelled m xs) = Some must_be_dict"
    using bad by (simp add: raises_transform_labelled)
  ultimately show "RunnableAssign_transform_labelled m xs
        = Iterator (map (Pair Passthrough) (spec_passthrough_output (steps_keys m) xs))
            (Some must_be_dict)"
    by (metis iterator.collapse)
next
  assume bad: "\<not> list_all is_dict xs"
  have "yields (RunnableAssign_atransform_labelled m xs)
          = map (Pair Passthrough) (spec_passthrough_output (steps_keys m) xs)"
    using bad by (simp add: yields_atransform_labelled)
  moreover have "raises (RunnableAssign_atransform_labelled m xs) = Some must_be_dict"
    using bad by (simp add: raises_atransform_labelled)
  ultimately show "RunnableAssign_atransform_labelled m xs
        = Iterator (map (Pair Passthrough) (spec_passthrough_output (steps_keys m) xs))
            (Some must_be_dict)"
    by (metis iterator.collapse)
qed

theorem non_dict_fails_after_passthrough_prefix_witness:
  "\<not> is_dict (PyInt 5)
   \<and> RunnableAssign_invoke example_mapper (PyInt 5) = Inl must_be_dict
   \<and> RunnableAssign_ainvoke example_mapper (PyInt 5) = Inl must_be_dict
   \<and> \<not> list_all is_dict [PyDict [(''a'', PyInt 1)], PyInt 5]
   \<and> RunnableAssign_transform_labelled example_mapper [PyDict [(''a'', PyInt 1)], PyInt 5]
       = Iterator [(Passthrough, PyDict [(''a'', PyInt 1)])] (Some must_be_dict)
   \<and> RunnableAssign_atransform_labelled example_mapper [PyDict [(''a'', PyInt 1)], PyInt 5]
       = Iterator [(Passthrough, PyDict [(''a'', PyInt 1)])] (Some must_be_dict)
   \<and> RunnableAssign_transform_labelled example_mapper [PyInt 5, PyDict [(''a'', PyInt 1)]]
       = Iterator [] (Some must_be_dict)"
  using non_dict_fails_after_passthrough_prefix
          [of "PyInt 5" example_mapper "[PyDict [(''a'', PyInt 1)], PyInt 5]"]
        non_dict_fails_after_passthrough_prefix
          [of "PyInt 5" example_mapper "[PyInt 5, PyDict [(''a'', PyInt 1)]]"]
  by (simp add: spec_passthrough_output_def example_mapper_def)

text \<open>
  Claim C6 (the identity unit): \<open>RunnablePassthrough\<close> returns its input, and its
  \<open>transform\<close> yields the input chunks as they are.
\<close>

theorem passthrough_is_identity:
  "RunnablePassthrough_invoke x = x \<and> RunnablePassthrough_ainvoke x = x
   \<and> RunnablePassthrough_transform xs = xs \<and> RunnablePassthrough_atransform xs = xs"
  by (simp add: RunnablePassthrough_invoke_def RunnablePassthrough_ainvoke_def
      RunnablePassthrough_transform_def RunnablePassthrough_atransform_def
      call_with_config_def acall_with_config_def transform_stream_with_config_def
      atransform_stream_with_config_def identity_def aidentity_def)

text \<open>
  Claim C7 (mapping a chain run): when the run has outputs, is a chain run and has both
  keys, \<open>map\<close> returns the input and the prediction under those keys; when one of the
  keys is absent, \<open>map\<close> raises a \<open>ValueError\<close> and returns nothing.
\<close>

theorem chain_run_mapper_map:
  "(outputs r = Some outs \<and> run_type r = ''chain''
      \<and> map_of (inputs r) (input_key self) = Some i
      \<and> map_of outs (prediction_key self) = Some p
    \<longrightarrow> ChainStringRunMapper_map self r = Inr [(''input'', i), (''prediction'', p)])
   \<and> (input_key self \<notin> fst ` set (inputs r)
        \<or> (\<forall>outs. outputs r = Some outs \<longrightarrow> prediction_key self \<notin> fst ` set outs)
    \<longrightarrow> (\<exists>msg. ChainStringRunMapper_map self r = Inl (ValueError msg)))"
proof (intro conjI impI)
  assume a: "outputs r = Some outs \<and> run_type r = ''chain''
      \<and> map_of (inputs r) (input_key self) = Some i
      \<and> map_of outs (prediction_key self) = Some p"
  then have ne: "outs \<noteq> []" by auto
  from a have ik: "input_key self \<in> fst ` set (inputs r)"
    by (auto simp: weak_map_of_SomeI dest!: map_of_SomeD intro: rev_image_eqI)
  from a have pk: "prediction_key self \<in> fst ` set outs"
    by (auto dest!: map_of_SomeD intro: rev_image_eqI)
  show "ChainStringRunMapper_map self r = Inr [(''input'', i), (''prediction'', p)]"
    using a ne ik pk by (simp add: ChainStringRunMapper_map_def subscript_Some)
next
  assume b: "input_key self \<notin> fst ` set (inputs r)
        \<or> (\<forall>outs. outputs r = Some outs \<longrightarrow> prediction_key self \<notin> fst ` set outs)"
  show "\<exists>msg. ChainStringRunMapper_map self r = Inl (ValueError msg)"
  proof (cases "outputs r")
    case None
    then show ?thesis by (simp add: ChainStringRunMapper_map_def)
  next
    case (Some outs)
    with b show ?thesis by (auto simp: ChainStringRunMapper_map_def)
  qed
qed

theorem chain_run_mapper_map_witness:
  "outputs good_run = Some [(''answer'', PyStr ''4'')] \<and> run_type good_run = ''chain''
   \<and> map_of (inputs good_run) (input_key chain_mapper) = Some (PyStr ''2+2'')
   \<and> map_of [(''answer'', PyStr ''4'')] (prediction_key chain_mapper) = Some (PyStr ''4'')
   \<and> ChainStringRunMapper_map chain_mapper good_run
       = Inr [(''input'', PyStr ''2+2''), (''prediction'', PyStr ''4'')]
   \<and> prediction_key chain_mapper \<notin> fst ` set [(''text'', PyStr ''4'')]
   \<and> (\<exists>msg. ChainStringRunMapper_map chain_mapper bad_run = Inl (ValueError msg))"
  using chain_run_mapper_map [of good_run "[(''answer'', PyStr ''4'')]" chain_mapper "PyStr ''2+2''" "PyStr ''4''"]
        chain_run_mapper_map [of bad_run "[]" chain_mapper PyNone PyNone]
  by (simp add: good_run_def bad_run_def chain_mapper_def)

text \<open>
  Claim C8 (the trailing \<open>None\<close>): when every input chunk is a dict and the mapper's
  stream ends without a chunk, \<open>transform\<close> and \<open>atransform\<close> yield the filtered
  passthrough chunks and then \<open>None\<close>.
\<close>

theorem empty_map_stream_yields_None:
  "list_all is_dict xs \<Longrightarrow>
   (transform_m m xs = Iterator [] None \<longrightarrow>
      RunnableAssign_transform m xs
        = Iterator (spec_passthrough_output (steps_keys m) xs @ [PyNone]) None)
   \<and> (atransform_m m xs = Iterator [] None \<longrightarrow>
      RunnableAssign_atransform m xs
        = Iterator (spec_passthrough_output (steps_keys m) xs @ [PyNone]) None)"
  by (simp add: RunnableAssign_transform_def RunnableAssign_atransform_def unlabelled_def
      yields_transform_labelled raises_transform_labelled
      yields_atransform_labelled raises_atransform_labelled yields_yield_map_output o_def)

theorem empty_map_stream_yields_None_witness:
  "list_all is_dict [PyDict [(''a'', PyInt 1)]]
   \<and> transform_m empty_mapper [PyDict [(''a'', PyInt 1)]] = Iterator [] None
   \<and> RunnableAssign_transform empty_mapper [PyDict [(''a'', PyInt 1)]]
       = Iterator [PyDict [(''a'', PyInt 1)], PyNone] None
   \<and> atransform_m empty_mapper [PyDict [(''a'', PyInt 1)]] = Iterator [] None
   \<and> RunnableAssign_atransform empty_mapper [PyDict [(''a'', PyInt 1)]]
       = Iterator [PyDict [(''a'', PyInt 1)], PyNone] None"
  using empty_map_stream_yields_None [of "[PyDict [(''a'', PyInt 1)]]" empty_mapper]
  by (simp add: empty_mapper_def spec_passthrough_output_def)



text \<open>
  Claim C10 (the score does not depend on \<open>input\<close> and \<open>reference\<close>): two calls of
  \<open>evaluate_string_pairs\<close>, or of \<open>aevaluate_string_pairs\<close>, that differ only in those two
  arguments return the same result.
\<close>

theorem score_ignores_input_and_reference:
  "evaluate_string_pairs self prediction prediction_b input reference
     = evaluate_string_pairs self prediction prediction_b input' reference'
   \<and> aevaluate_string_pairs self prediction prediction_b input reference
     = aevaluate_string_pairs self prediction prediction_b input' reference'"
  by (simp add: evaluate_string_pairs_def aevaluate_string_pairs_def)

end
